theory Spec2Isabelle
  imports Complex_Main "HOL-Library.Sublist" "HOL-Library.AList"
begin

section \<open>JavaScript values used by the dashboard pages\<close>

text \<open>
  The pages under \<^verbatim>\<open>src/Pages\<close> (Environmental.js, Biological.js, Journal.js) derive
  their figures from arrays of plain records. Three kinds of JavaScript value occur:

  \<^item> identifiers and raw dates, which are strings, \<^verbatim>\<open>null\<close> or \<^verbatim>\<open>undefined\<close>
    (type \<open>jsval\<close>); on these \<^verbatim>\<open>===\<close> is equality of the values;
  \<^item> numeric attributes of a record, which are a number or absent: \<open>real option\<close>,
    where \<open>None\<close> is the absent attribute (reading it gives \<^verbatim>\<open>undefined\<close>); an
    attribute stored as \<^verbatim>\<open>null\<close>, which \<^verbatim>\<open>Math.max\<close> and \<^verbatim>\<open>Math.min\<close> read as
    \<open>0\<close>, is not modelled;
  \<^item> results of numeric expressions, which may also be \<^verbatim>\<open>NaN\<close> or an infinity
    (type \<open>jsnum\<close>).

  Numbers are IEEE doubles in the source; here they are exact reals, so the theorems
  below are about the arithmetic the code writes down, not about rounding.
\<close>

datatype jsval = Undefined | Null | Str string

datatype jsnum = Num real | NaN | PosInfinity | NegInfinity

text \<open>
  \<^verbatim>\<open>x || 0\<close> on a numeric attribute: the falsy values, absent and \<open>0\<close>, give the
  right operand \<open>0\<close>; any other number is returned as it is.
\<close>

fun or_zero :: "real option \<Rightarrow> real" where
  "or_zero None = 0"
| "or_zero (Some v) = (if v = 0 then 0 else v)"

text \<open>The truth value of a numeric attribute: absent and \<open>0\<close> are falsy.\<close>

fun truthy :: "real option \<Rightarrow> bool" where
  "truthy None = False"
| "truthy (Some v) = (v \<noteq> 0)"

text \<open>The conversion of an attribute to a number, as \<^verbatim>\<open>Math.max\<close> does on its arguments.\<close>

fun to_number :: "real option \<Rightarrow> jsnum" where
  "to_number None = NaN"
| "to_number (Some v) = Num v"

text \<open>\<^verbatim>\<open>a === b\<close> for an attribute \<open>a\<close> and a number \<open>b\<close>: \<^verbatim>\<open>NaN\<close> equals nothing.\<close>

fun strict_eq :: "real option \<Rightarrow> jsnum \<Rightarrow> bool" where
  "strict_eq (Some a) (Num b) = (a = b)"
| "strict_eq _ _ = False"

text \<open>
  \<^verbatim>\<open>Math.max(...xs)\<close> and \<^verbatim>\<open>Math.min(...xs)\<close>: a \<^verbatim>\<open>NaN\<close> argument makes the
  result \<^verbatim>\<open>NaN\<close>; with no argument the results are \<^verbatim>\<open>-Infinity\<close> and
  \<^verbatim>\<open>Infinity\<close>.
\<close>

fun max2 :: "jsnum \<Rightarrow> jsnum \<Rightarrow> jsnum" where
  "max2 NaN _ = NaN"
| "max2 _ NaN = NaN"
| "max2 PosInfinity _ = PosInfinity"
| "max2 _ PosInfinity = PosInfinity"
| "max2 NegInfinity y = y"
| "max2 x NegInfinity = x"
| "max2 (Num a) (Num b) = Num (max a b)"

fun min2 :: "jsnum \<Rightarrow> jsnum \<Rightarrow> jsnum" where
  "min2 NaN _ = NaN"
| "min2 _ NaN = NaN"
| "min2 NegInfinity _ = NegInfinity"
| "min2 _ NegInfinity = NegInfinity"
| "min2 PosInfinity y = y"
| "min2 x PosInfinity = x"
| "min2 (Num a) (Num b) = Num (min a b)"

definition Math_max :: "jsnum list \<Rightarrow> jsnum" where
  "Math_max xs = foldl max2 NegInfinity xs"

definition Math_min :: "jsnum list \<Rightarrow> jsnum" where
  "Math_min xs = foldl min2 PosInfinity xs"

section \<open>The record collections\<close>

text \<open>
  \<open>Location\<close>, and the three measurement collections, which share \<^verbatim>\<open>location_id\<close>
  and \<^verbatim>\<open>date\<close>. Only the attributes the derivations read are kept.
\<close>

record location =
  loc_id :: jsval
  name :: string

record measurement =
  location_id :: jsval
  date :: jsval

record environmental_data = measurement +
  temperature_avg :: "real option"
  temperature_min :: "real option"
  temperature_max :: "real option"
  humidity :: "real option"
  light_exposure :: "real option"
  air_quality_index :: "real option"
  noise_level :: "real option"

record biological_data = measurement +
  heart_rate_resting :: "real option"
  heart_rate_variability :: "real option"
  sleep_quality_score :: "real option"
  sleep_duration :: "real option"
  stress_level :: "real option"

record journal_entry = measurement +
  emotions :: "string list option"
  mood_score :: "real option"
  highlight_moment :: bool

section \<open>Location scope and location names\<close>

text \<open>
  \<^verbatim>\<open>getFilteredData\<close> (Environmental.js and Biological.js, the same text in both):
  \<^verbatim>\<open>
  if (selectedLocation === "all") return environmentalData;
  return environmentalData.filter(data => data.location_id === selectedLocation);
  \<close>
  The component state it reads is passed as arguments.
\<close>

definition getFilteredData :: "('a measurement_scheme) list \<Rightarrow> jsval \<Rightarrow> ('a measurement_scheme) list" where
  "getFilteredData records selectedLocation =
     (if selectedLocation = Str ''all'' then records
      else filter (\<lambda>data. location_id data = selectedLocation) records)"

text \<open>
  \<^verbatim>\<open>getLocationName\<close> (the same text in Environmental.js, Biological.js, Journal.js
  and DataArchive.js):
  \<^verbatim>\<open>
  const location = locations.find(loc => loc.id === locationId);
  return location ? location.name : "Unknown Location";
  \<close>
\<close>

definition getLocationName :: "location list \<Rightarrow> jsval \<Rightarrow> string" where
  "getLocationName locations locationId =
     (case find (\<lambda>loc. loc_id loc = locationId) locations of
        Some location \<Rightarrow> name location
      | None \<Rightarrow> ''Unknown Location'')"

section \<open>Summary statistics\<close>

text \<open>
  \<^verbatim>\<open>getMetricStats\<close> (Environmental.js):
  \<^verbatim>\<open>
  const filteredData = getFilteredData();
  if (filteredData.length === 0) return {};
  return {
    temperature: {
      avg: filteredData.reduce((sum, d) => sum + (d.temperature_avg || 0), 0) / filteredData.length,
      min: Math.min(...filteredData.map(d => d.temperature_min || 0)),
      max: Math.max(...filteredData.map(d => d.temperature_max || 0)) },
    humidity: { avg: ... (d.humidity || 0) ... },
    light: { avg: ... (d.light_exposure || 0) ... },
    airQuality: { avg: ... (d.air_quality_index || 0) ... } };
  \<close>
  The empty object returned for no data is \<open>None\<close>.
\<close>

record metric_summary =
  stat_avg :: real

record temperature_summary = metric_summary +
  stat_min :: jsnum
  stat_max :: jsnum

record metric_stats =
  temperature_stats :: temperature_summary
  humidity_stats :: metric_summary
  light_stats :: metric_summary
  airQuality_stats :: metric_summary

definition getMetricStats :: "environmental_data list \<Rightarrow> jsval \<Rightarrow> metric_stats option" where
  "getMetricStats environmentalData selectedLocation =
     (let filteredData = getFilteredData environmentalData selectedLocation in
      if length filteredData = 0 then None
      else Some \<lparr>
        temperature_stats = \<lparr>
          stat_avg = foldl (\<lambda>sum d. sum + or_zero (temperature_avg d)) 0 filteredData
                       / real (length filteredData),
          stat_min = Math_min (map (\<lambda>d. Num (or_zero (temperature_min d))) filteredData),
          stat_max = Math_max (map (\<lambda>d. Num (or_zero (temperature_max d))) filteredData) \<rparr>,
        humidity_stats = \<lparr>
          stat_avg = foldl (\<lambda>sum d. sum + or_zero (humidity d)) 0 filteredData
                       / real (length filteredData) \<rparr>,
        light_stats = \<lparr>
          stat_avg = foldl (\<lambda>sum d. sum + or_zero (light_exposure d)) 0 filteredData
                       / real (length filteredData) \<rparr>,
        airQuality_stats = \<lparr>
          stat_avg = foldl (\<lambda>sum d. sum + or_zero (air_quality_index d)) 0 filteredData
                       / real (length filteredData) \<rparr> \<rparr>)"

text \<open>
  \<^verbatim>\<open>getBiometricStats\<close> (Biological.js) has the same shape: \<^verbatim>\<open>heartRate\<close> with
  \<^verbatim>\<open>avg\<close> and \<^verbatim>\<open>range: [Math.min(...), Math.max(...)]\<close> over
  \<^verbatim>\<open>d.heart_rate_resting || 0\<close>, \<^verbatim>\<open>hrv\<close>, \<^verbatim>\<open>sleep\<close> with \<^verbatim>\<open>avg\<close> and
  \<^verbatim>\<open>avgDuration\<close>, and \<^verbatim>\<open>stress\<close>.
\<close>

record heart_rate_summary = metric_summary +
  range :: "jsnum \<times> jsnum"

record sleep_summary = metric_summary +
  avgDuration :: real

record biometric_stats =
  heartRate_stats :: heart_rate_summary
  hrv_stats :: metric_summary
  sleep_stats :: sleep_summary
  stress_stats :: metric_summary

definition getBiometricStats :: "biological_data list \<Rightarrow> jsval \<Rightarrow> biometric_stats option" where
  "getBiometricStats biologicalData selectedLocation =
     (let filteredData = getFilteredData biologicalData selectedLocation in
      if length filteredData = 0 then None
      else Some \<lparr>
        heartRate_stats = \<lparr>
          stat_avg = foldl (\<lambda>sum d. sum + or_zero (heart_rate_resting d)) 0 filteredData
                       / real (length filteredData),
          range = (Math_min (map (\<lambda>d. Num (or_zero (heart_rate_resting d))) filteredData),
                   Math_max (map (\<lambda>d. Num (or_zero (heart_rate_resting d))) filteredData)) \<rparr>,
        hrv_stats = \<lparr>
          stat_avg = foldl (\<lambda>sum d. sum + or_zero (heart_rate_variability d)) 0 filteredData
                       / real (length filteredData) \<rparr>,
        sleep_stats = \<lparr>
          stat_avg = foldl (\<lambda>sum d. sum + or_zero (sleep_quality_score d)) 0 filteredData
                       / real (length filteredData),
          avgDuration = foldl (\<lambda>sum d. sum + or_zero (sleep_duration d)) 0 filteredData
                       / real (length filteredData) \<rparr>,
        stress_stats = \<lparr>
          stat_avg = foldl (\<lambda>sum d. sum + or_zero (stress_level d)) 0 filteredData
                       / real (length filteredData) \<rparr> \<rparr>)"

text \<open>
  The reading of the specification the averages are compared with: the sum over all
  records of the attribute's value if present, else \<open>0\<close>, divided by the number of
  records.
\<close>

definition mean_zero_substituted :: "('a \<Rightarrow> real option) \<Rightarrow> 'a list \<Rightarrow> real" where
  "mean_zero_substituted field records =
     (\<Sum>d\<leftarrow>records. (case field d of Some v \<Rightarrow> v | None \<Rightarrow> 0)) / real (length records)"

text \<open>The values of an attribute that the records actually carry.\<close>

definition present_values :: "('a \<Rightarrow> real option) \<Rightarrow> 'a list \<Rightarrow> real list" where
  "present_values field records = List.map_filter field records"

section \<open>Radar normalisation\<close>

text \<open>
  \<^verbatim>\<open>prepareRadarData\<close> (Environmental.js) groups the filtered records by location name
  in an object, pushing \<^verbatim>\<open>data.temperature_avg || 0\<close> and the like onto per-group
  arrays, and maps every group to its averages, four of them rescaled by
  \<^verbatim>\<open>Math.min(100, (avg(arr) / c) * 100)\<close> with \<open>c\<close> one of 40, 10000, 200, 100.
  That expression is \<open>normalize\<close>. The object is an association list in insertion
  order, which is the order of \<^verbatim>\<open>Object.entries\<close> for keys that are not array indices;
  location names are assumed not to collide with members of \<^verbatim>\<open>Object.prototype\<close>.
\<close>

definition normalize :: "real \<Rightarrow> real \<Rightarrow> real" where
  "normalize v maxScale = min 100 ((v / maxScale) * 100)"

definition avg :: "real list \<Rightarrow> real" where
  "avg arr = foldl (\<lambda>sum val. sum + val) 0 arr / real (length arr)"

record location_group =
  g_temperature :: "real list"
  g_humidity :: "real list"
  g_light :: "real list"
  g_airQuality :: "real list"
  g_noise :: "real list"

definition push_reading :: "location_group \<Rightarrow> environmental_data \<Rightarrow> location_group" where
  "push_reading g data = \<lparr>
     g_temperature = g_temperature g @ [or_zero (temperature_avg data)],
     g_humidity = g_humidity g @ [or_zero (humidity data)],
     g_light = g_light g @ [or_zero (light_exposure data)],
     g_airQuality = g_airQuality g @ [or_zero (air_quality_index data)],
     g_noise = g_noise g @ [or_zero (noise_level data)] \<rparr>"

fun add_reading :: "(string \<times> location_group) list \<Rightarrow> string \<Rightarrow> environmental_data
    \<Rightarrow> (string \<times> location_group) list" where
  "add_reading [] locationName data =
     [(locationName, push_reading \<lparr>g_temperature = [], g_humidity = [], g_light = [],
                                    g_airQuality = [], g_noise = []\<rparr> data)]"
| "add_reading ((k, g) # groups) locationName data =
     (if k = locationName then (k, push_reading g data) # groups
      else (k, g) # add_reading groups locationName data)"

record radar_row =
  r_location :: string
  Temperature :: real
  Humidity :: real
  Light :: real
  Air_Quality :: real
  Noise :: real

definition prepareRadarData :: "location list \<Rightarrow> environmental_data list \<Rightarrow> jsval \<Rightarrow> radar_row list" where
  "prepareRadarData locations environmentalData selectedLocation =
     (let filteredData = getFilteredData environmentalData selectedLocation in
      if length filteredData = 0 then []
      else
        let locationGroups =
              foldl (\<lambda>groups data.
                       add_reading groups (getLocationName locations (location_id data)) data)
                    [] filteredData
        in map (\<lambda>(location, metrics). \<lparr>
                  r_location = location,
                  Temperature = normalize (avg (g_temperature metrics)) 40,
                  Humidity = avg (g_humidity metrics),
                  Light = normalize (avg (g_light metrics)) 10000,
                  Air_Quality = normalize (avg (g_airQuality metrics)) 200,
                  Noise = normalize (avg (g_noise metrics)) 100 \<rparr>) locationGroups)"

section \<open>Harmony score and harmony zones\<close>

text \<open>
  \<^verbatim>\<open>calculateHarmonyScore\<close> (Biological.js):
  \<^verbatim>\<open>
  const hrvScore = Math.min(100, (data.heart_rate_variability / 50) * 100);
  const sleepScore = (data.sleep_quality_score / 10) * 100;
  const stressScore = ((10 - data.stress_level) / 10) * 100;
  return (hrvScore + sleepScore + stressScore) / 3;
  \<close>
  An absent attribute makes its sub-score, and so the result, \<^verbatim>\<open>NaN\<close>.
\<close>

definition calculateHarmonyScore :: "biological_data \<Rightarrow> jsnum" where
  "calculateHarmonyScore data =
     (case (heart_rate_variability data, sleep_quality_score data, stress_level data) of
        (Some h, Some s, Some t) \<Rightarrow>
          (let hrvScore = min 100 ((h / 50) * 100);
               sleepScore = (s / 10) * 100;
               stressScore = ((10 - t) / 10) * 100
           in Num ((hrvScore + sleepScore + stressScore) / 3))
      | _ \<Rightarrow> NaN)"

text \<open>
  \<^verbatim>\<open>format(new Date(x), 'MMM d')\<close> is date-fns, outside the repository: it is the
  parameter \<open>fmt\<close>. It throws a \<^verbatim>\<open>RangeError\<close> on an invalid date, which aborts the
  \<^verbatim>\<open>map\<close> that calls it.
\<close>

datatype error = RangeError

fun map_throwing :: "('a \<Rightarrow> error + 'b) \<Rightarrow> 'a list \<Rightarrow> error + 'b list" where
  "map_throwing f [] = Inr []"
| "map_throwing f (x # xs) =
     (case f x of
        Inl e \<Rightarrow> Inl e
      | Inr y \<Rightarrow> (case map_throwing f xs of Inl e \<Rightarrow> Inl e | Inr ys \<Rightarrow> Inr (y # ys)))"

record harmony_zone =
  hz_location :: string
  hz_date :: string
  harmony_score :: jsnum
  hz_stress_level :: "real option"
  sleep_quality :: "real option"
  hrv :: "real option"

definition getHarmonyZones :: "(jsval \<Rightarrow> error + string) \<Rightarrow> location list \<Rightarrow> biological_data list
    \<Rightarrow> jsval \<Rightarrow> error + harmony_zone list" where
  "getHarmonyZones fmt locations biologicalData selectedLocation =
     (let filteredData = getFilteredData biologicalData selectedLocation in
      map_throwing (\<lambda>data.
        case fmt (date data) of
          Inl e \<Rightarrow> Inl e
        | Inr label \<Rightarrow> Inr \<lparr>
            hz_location = getLocationName locations (location_id data),
            hz_date = label,
            harmony_score = calculateHarmonyScore data,
            hz_stress_level = stress_level data,
            sleep_quality = sleep_quality_score data,
            hrv = heart_rate_variability data \<rparr>) filteredData)"

text \<open>
  The three insight cards of Biological.js, each an expression of the form
  \<^verbatim>\<open>
  const bestHRV = Math.max(...harmonyData.map(d => d.hrv));
  const bestLocation = harmonyData.find(d => d.hrv === bestHRV);
  \<close>
  with \<^verbatim>\<open>sleep_quality\<close> for Best Sleep, and \<^verbatim>\<open>Math.min\<close> over
  \<^verbatim>\<open>stress_level\<close> for Calmest Environment. \<open>None\<close> is \<^verbatim>\<open>undefined\<close>, rendered
  as "No data available".
\<close>

definition bestLocation_recovery :: "harmony_zone list \<Rightarrow> harmony_zone option" where
  "bestLocation_recovery harmonyData =
     (let bestHRV = Math_max (map (\<lambda>d. to_number (hrv d)) harmonyData)
      in find (\<lambda>d. strict_eq (hrv d) bestHRV) harmonyData)"

definition bestLocation_sleep :: "harmony_zone list \<Rightarrow> harmony_zone option" where
  "bestLocation_sleep harmonyData =
     (let bestSleep = Math_max (map (\<lambda>d. to_number (sleep_quality d)) harmonyData)
      in find (\<lambda>d. strict_eq (sleep_quality d) bestSleep) harmonyData)"

definition calmestLocation :: "harmony_zone list \<Rightarrow> harmony_zone option" where
  "calmestLocation harmonyData =
     (let lowestStress = Math_min (map (\<lambda>d. to_number (hz_stress_level d)) harmonyData)
      in find (\<lambda>d. strict_eq (hz_stress_level d) lowestStress) harmonyData)"

section \<open>Journal statistics\<close>

text \<open>
  \<^verbatim>\<open>getEmotionStats\<close> (Journal.js):
  \<^verbatim>\<open>
  const emotionCounts = {};
  journalEntries.forEach(entry => {
    entry.emotions?.forEach(emotion => {
      emotionCounts[emotion] = (emotionCounts[emotion] || 0) + 1; }); });
  return Object.entries(emotionCounts).sort(([,a], [,b]) => b - a).slice(0, 6);
  \<close>
  \<^verbatim>\<open>emotionCounts\<close> is an association list in insertion order (emotions are words such
  as those of \<^verbatim>\<open>EMOTIONS\<close>, neither array indices nor members of
  \<^verbatim>\<open>Object.prototype\<close>); \<^verbatim>\<open>sort\<close> is stable, and the comparator \<^verbatim>\<open>b - a\<close>
  orders by decreasing count. \<open>count_of\<close> is \<^verbatim>\<open>emotionCounts[emotion] || 0\<close>, and
  \<open>AList.update\<close> is the assignment: it keeps the position of a key already there and
  appends a new one.
\<close>

definition count_of :: "(string \<times> nat) list \<Rightarrow> string \<Rightarrow> nat" where
  "count_of counts emotion = (case map_of counts emotion of Some c \<Rightarrow> c | None \<Rightarrow> 0)"

definition increment :: "(string \<times> nat) list \<Rightarrow> string \<Rightarrow> (string \<times> nat) list" where
  "increment counts emotion = AList.update emotion (count_of counts emotion + 1) counts"

definition emotionCounts :: "journal_entry list \<Rightarrow> (string \<times> nat) list" where
  "emotionCounts journalEntries =
     foldl (\<lambda>counts entry.
              case emotions entry of
                None \<Rightarrow> counts
              | Some es \<Rightarrow> foldl increment counts es)
           [] journalEntries"

definition getEmotionStats :: "journal_entry list \<Rightarrow> (string \<times> nat) list" where
  "getEmotionStats journalEntries =
     take 6 (sort_key (\<lambda>(emotion, count). - int count) (emotionCounts journalEntries))"

text \<open>The emotions of an entry as a list, empty when the attribute is absent.\<close>

definition emotion_list :: "journal_entry \<Rightarrow> string list" where
  "emotion_list entry = (case emotions entry of None \<Rightarrow> [] | Some es \<Rightarrow> es)"

text \<open>
  \<^verbatim>\<open>getMoodTrend\<close> (Journal.js):
  \<^verbatim>\<open>
  return journalEntries
    .filter(entry => entry.mood_score)
    .map(entry => ({
      date: format(new Date(entry.date), 'MMM d'),
      mood: entry.mood_score,
      location: getLocationName(entry.location_id) }));
  \<close>
\<close>

record mood_point =
  mp_date :: string
  mood :: "real option"
  mp_location :: string

definition mood_point_of :: "(jsval \<Rightarrow> error + string) \<Rightarrow> location list \<Rightarrow> journal_entry
    \<Rightarrow> error + mood_point" where
  "mood_point_of fmt locations entry =
     (case fmt (date entry) of
        Inl e \<Rightarrow> Inl e
      | Inr label \<Rightarrow> Inr \<lparr>
          mp_date = label,
          mood = mood_score entry,
          mp_location = getLocationName locations (location_id entry) \<rparr>)"

definition getMoodTrend :: "(jsval \<Rightarrow> error + string) \<Rightarrow> location list \<Rightarrow> journal_entry list
    \<Rightarrow> error + mood_point list" where
  "getMoodTrend fmt locations journalEntries =
     map_throwing (mood_point_of fmt locations)
       (filter (\<lambda>entry. truthy (mood_score entry)) journalEntries)"

section \<open>Auxiliary facts\<close>

lemma find_first_index:
  "i < length xs \<Longrightarrow> P (xs ! i) \<Longrightarrow> (\<forall>j<i. \<not> P (xs ! j)) \<Longrightarrow> find P xs = Some (xs ! i)"
proof (induction xs arbitrary: i)
  case Nil
  then show ?case by simp
next
  case (Cons x xs)
  show ?case
  proof (cases i)
    case 0
    with Cons.prems show ?thesis by simp
  next
    case (Suc k)
    with Cons.prems have "\<not> P x" by auto
    moreover have "find P xs = Some (xs ! k)"
      using Cons.IH[of k] Cons.prems Suc by fastforce
    ultimately show ?thesis using Suc by simp
  qed
qed

lemma foldl_or_zero_sum:
  "foldl (\<lambda>sum d. sum + or_zero (field d)) a records =
     a + (\<Sum>d\<leftarrow>records. (case field d of Some v \<Rightarrow> v | None \<Rightarrow> 0))"
proof (induction records arbitrary: a)
  case Nil
  then show ?case by simp
next
  case (Cons d records)
  have "or_zero (field d) = (case field d of Some v \<Rightarrow> v | None \<Rightarrow> 0)"
    by (cases "field d") simp_all
  with Cons.IH show ?case by (simp add: add.assoc)
qed

lemma reduce_mean:
  "foldl (\<lambda>sum d. sum + or_zero (field d)) 0 records / real (length records) =
     mean_zero_substituted field records"
  by (simp add: foldl_or_zero_sum mean_zero_substituted_def)

lemma foldl_min2_Num: "foldl min2 (Num a) (map Num xs) = Num (fold min xs a)"
  by (induction xs arbitrary: a) (simp_all add: min.commute)

lemma foldl_max2_Num: "foldl max2 (Num a) (map Num xs) = Num (fold max xs a)"
  by (induction xs arbitrary: a) (simp_all add: max.commute)

lemma Math_min_Num: "xs \<noteq> [] \<Longrightarrow> Math_min (map Num xs) = Num (Min (set xs))"
  by (cases xs) (simp_all add: Math_min_def foldl_min2_Num Min.set_eq_fold del: set_simps)

lemma Math_max_Num: "xs \<noteq> [] \<Longrightarrow> Math_max (map Num xs) = Num (Max (set xs))"
  by (cases xs) (simp_all add: Math_max_def foldl_max2_Num Max.set_eq_fold del: set_simps)

lemma or_zero_case: "or_zero x = (case x of Some v \<Rightarrow> v | None \<Rightarrow> 0)"
  by (cases x) simp_all

lemma present_values_all:
  "\<forall>d \<in> set records. field d \<noteq> None \<Longrightarrow>
     present_values field records = map (\<lambda>d. or_zero (field d)) records"
  by (induction records) (auto simp: present_values_def List.map_filter_simps)

lemma max2_NaN_right: "max2 x NaN = NaN"
  by (cases x) simp_all

lemma min2_NaN_right: "min2 x NaN = NaN"
  by (cases x) simp_all

lemma foldl_max2_NaN: "foldl max2 NaN xs = NaN"
  by (induction xs) simp_all

lemma foldl_min2_NaN: "foldl min2 NaN xs = NaN"
  by (induction xs) simp_all

lemma foldl_max2_absent: "NaN \<in> set xs \<Longrightarrow> foldl max2 a xs = NaN"
  by (induction xs arbitrary: a) (auto simp: max2_NaN_right foldl_max2_NaN)

lemma foldl_min2_absent: "NaN \<in> set xs \<Longrightarrow> foldl min2 a xs = NaN"
  by (induction xs arbitrary: a) (auto simp: min2_NaN_right foldl_min2_NaN)

lemma to_number_present:
  "\<forall>d \<in> set ds. sel d \<noteq> None \<Longrightarrow>
     map (\<lambda>d. to_number (sel d)) ds = map Num (map (\<lambda>d. the (sel d)) ds)"
  by (induction ds) auto

lemma strict_eq_Num: "strict_eq x (Num m) \<longleftrightarrow> x = Some m"
  by (cases x) auto

lemma first_maximum:
  assumes "ds \<noteq> []" and "\<forall>d \<in> set ds. sel d \<noteq> None"
  shows "\<exists>i<length ds.
     find (\<lambda>d. strict_eq (sel d) (Math_max (map (\<lambda>d. to_number (sel d)) ds))) ds = Some (ds ! i) \<and>
     (\<exists>m. sel (ds ! i) = Some m \<and>
          (\<forall>j<length ds. \<exists>v. sel (ds ! j) = Some v \<and> v \<le> m) \<and>
          (\<forall>j<i. sel (ds ! j) \<noteq> Some m))"
proof -
  define vs where "vs = map (\<lambda>d. the (sel d)) ds"
  define m where "m = Max (set vs)"
  have vs_ne: "vs \<noteq> []" using assms(1) by (simp add: vs_def)
  have "map (\<lambda>d. to_number (sel d)) ds = map Num vs"
    unfolding vs_def by (rule to_number_present[OF assms(2)])
  then have best: "Math_max (map (\<lambda>d. to_number (sel d)) ds) = Num m"
    unfolding m_def by (simp only: Math_max_Num[OF vs_ne])
  have "m \<in> set vs" unfolding m_def using vs_ne by (intro Max_in) simp_all
  then obtain d where d: "d \<in> set ds" "sel d = Some m"
    using assms(2) by (auto simp: vs_def)
  have upper: "\<exists>v. sel (ds ! j) = Some v \<and> v \<le> m" if "j < length ds" for j
  proof -
    from that assms(2) obtain v where v: "sel (ds ! j) = Some v" by fastforce
    with that have "v \<in> set vs" by (force simp: vs_def in_set_conv_nth)
    then have "v \<le> m" unfolding m_def by (intro Max_ge) simp_all
    with v show ?thesis by blast
  qed
  from d have "find (\<lambda>d. sel d = Some m) ds \<noteq> None"
    by (auto simp: find_None_iff)
  then obtain i where i: "i < length ds" "sel (ds ! i) = Some m"
      "find (\<lambda>d. sel d = Some m) ds = Some (ds ! i)" "\<forall>j<i. sel (ds ! j) \<noteq> Some m"
    by (auto simp: find_Some_iff)
  show ?thesis
    unfolding best strict_eq_Num using i upper by blast
qed

lemma first_minimum:
  assumes "ds \<noteq> []" and "\<forall>d \<in> set ds. sel d \<noteq> None"
  shows "\<exists>i<length ds.
     find (\<lambda>d. strict_eq (sel d) (Math_min (map (\<lambda>d. to_number (sel d)) ds))) ds = Some (ds ! i) \<and>
     (\<exists>m. sel (ds ! i) = Some m \<and>
          (\<forall>j<length ds. \<exists>v. sel (ds ! j) = Some v \<and> m \<le> v) \<and>
          (\<forall>j<i. sel (ds ! j) \<noteq> Some m))"
proof -
  define vs where "vs = map (\<lambda>d. the (sel d)) ds"
  define m where "m = Min (set vs)"
  have vs_ne: "vs \<noteq> []" using assms(1) by (simp add: vs_def)
  have "map (\<lambda>d. to_number (sel d)) ds = map Num vs"
    unfolding vs_def by (rule to_number_present[OF assms(2)])
  then have best: "Math_min (map (\<lambda>d. to_number (sel d)) ds) = Num m"
    unfolding m_def by (simp only: Math_min_Num[OF vs_ne])
  have "m \<in> set vs" unfolding m_def using vs_ne by (intro Min_in) simp_all
  then obtain d where d: "d \<in> set ds" "sel d = Some m"
    using assms(2) by (auto simp: vs_def)
  have lower: "\<exists>v. sel (ds ! j) = Some v \<and> m \<le> v" if "j < length ds" for j
  proof -
    from that assms(2) obtain v where v: "sel (ds ! j) = Some v" by fastforce
    with that have "v \<in> set vs" by (force simp: vs_def in_set_conv_nth)
    then have "m \<le> v" unfolding m_def by (intro Min_le) simp_all
    with v show ?thesis by blast
  qed
  from d have "find (\<lambda>d. sel d = Some m) ds \<noteq> None"
    by (auto simp: find_None_iff)
  then obtain i where i: "i < length ds" "sel (ds ! i) = Some m"
      "find (\<lambda>d. sel d = Some m) ds = Some (ds ! i)" "\<forall>j<i. sel (ds ! j) \<noteq> Some m"
    by (auto simp: find_Some_iff)
  show ?thesis
    unfolding best strict_eq_Num using i lower by blast
qed

text \<open>
  Where a record lacks the selected attribute, \<^verbatim>\<open>Math.max\<close> and \<^verbatim>\<open>Math.min\<close> are
  \<^verbatim>\<open>NaN\<close>, which no value equals, and no record is found.
\<close>

lemma extremum_absent_value:
  "(\<exists>d \<in> set harmonyData. hrv d = None) \<Longrightarrow> bestLocation_recovery harmonyData = None"
  "(\<exists>d \<in> set harmonyData. hz_stress_level d = None) \<Longrightarrow> calmestLocation harmonyData = None"
proof -
  assume "\<exists>d \<in> set harmonyData. hrv d = None"
  then have "NaN \<in> set (map (\<lambda>d. to_number (hrv d)) harmonyData)" by force
  then have "Math_max (map (\<lambda>d. to_number (hrv d)) harmonyData) = NaN"
    unfolding Math_max_def by (rule foldl_max2_absent)
  then show "bestLocation_recovery harmonyData = None"
    by (simp add: bestLocation_recovery_def find_None_iff)
next
  assume "\<exists>d \<in> set harmonyData. hz_stress_level d = None"
  then have "NaN \<in> set (map (\<lambda>d. to_number (hz_stress_level d)) harmonyData)" by force
  then have "Math_min (map (\<lambda>d. to_number (hz_stress_level d)) harmonyData) = NaN"
    unfolding Math_min_def by (rule foldl_min2_absent)
  then show "calmestLocation harmonyData = None"
    by (simp add: calmestLocation_def find_None_iff)
qed

lemma count_of_increment:
  "count_of (increment counts e) e' = count_of counts e' + (if e' = e then 1 else 0)"
  by (simp add: increment_def count_of_def update_conv')

lemma count_of_Nil: "count_of [] e = 0"
  by (simp add: count_of_def)

lemma distinct_increment:
  "distinct (map fst counts) \<Longrightarrow> distinct (map fst (increment counts e))"
  by (simp add: increment_def distinct_update)

lemma count_of_foldl_increment:
  "count_of (foldl increment counts es) e = count_of counts e + count_list es e"
  by (induction es arbitrary: counts) (auto simp: count_of_increment)

lemma distinct_foldl_increment:
  "distinct (map fst counts) \<Longrightarrow> distinct (map fst (foldl increment counts es))"
  by (induction es arbitrary: counts) (simp_all add: distinct_increment)

lemma emotionCounts_foldl:
  "foldl (\<lambda>counts entry. case emotions entry of None \<Rightarrow> counts
                          | Some es \<Rightarrow> foldl increment counts es) acc journalEntries =
     foldl increment acc (concat (map emotion_list journalEntries))"
  by (induction journalEntries arbitrary: acc)
     (simp_all add: emotion_list_def split: option.split)

lemma count_list_concat:
  "count_list (concat xss) e = (\<Sum>xs\<leftarrow>xss. count_list xs e)"
  by (induction xss) simp_all

lemma count_list_distinct:
  "distinct xs \<Longrightarrow> count_list xs e = (if e \<in> set xs then 1 else 0)"
  by (induction xs) auto

lemma sum_list_indicator:
  "(\<Sum>x\<leftarrow>xs. if P x then 1 else 0) = length (filter P xs)"
  by (induction xs) simp_all

lemma emotionCounts_distinct: "distinct (map fst (emotionCounts journalEntries))"
  by (simp add: emotionCounts_def emotionCounts_foldl distinct_foldl_increment)

lemma emotionCounts_member:
  assumes "(e, c) \<in> set (emotionCounts journalEntries)"
  shows "c = (\<Sum>entry\<leftarrow>journalEntries. count_list (emotion_list entry) e)"
proof -
  have "map_of (emotionCounts journalEntries) e = Some c"
    using assms emotionCounts_distinct by (rule_tac map_of_is_SomeI) auto
  then have "count_of (emotionCounts journalEntries) e = c"
    by (simp add: count_of_def)
  moreover have "count_of (emotionCounts journalEntries) e =
      count_list (concat (map emotion_list journalEntries)) e"
    by (simp add: emotionCounts_def emotionCounts_foldl count_of_foldl_increment count_of_Nil)
  ultimately show ?thesis
    by (simp add: count_list_concat comp_def)
qed

lemma getEmotionStats_subset:
  "set (getEmotionStats journalEntries) \<subseteq> set (emotionCounts journalEntries)"
  using set_take_subset[of 6 "sort_key (\<lambda>(emotion, count). - int count) (emotionCounts journalEntries)"]
  by (simp add: getEmotionStats_def)

lemma getEmotionStats_sorted:
  "sorted_wrt (\<lambda>p q. snd q \<le> snd p) (getEmotionStats journalEntries)"
proof -
  let ?key = "\<lambda>(emotion :: string, count :: nat). - int count"
  have "sorted (map ?key (sort_key ?key (emotionCounts journalEntries)))"
    by (rule sorted_sort_key)
  then have "sorted_wrt (\<lambda>p q. ?key p \<le> ?key q) (sort_key ?key (emotionCounts journalEntries))"
    by (simp add: sorted_map)
  then have "sorted_wrt (\<lambda>p q. ?key p \<le> ?key q) (getEmotionStats journalEntries)"
    unfolding getEmotionStats_def by (rule sorted_wrt_take)
  then show ?thesis
    by (rule sorted_wrt_mono_rel[rotated]) (auto split: prod.splits)
qed

lemma getEmotionStats_distinct: "distinct (map fst (getEmotionStats journalEntries))"
proof -
  let ?key = "\<lambda>(emotion :: string, count :: nat). - int count"
  have "distinct (map fst (sort_key ?key (emotionCounts journalEntries)))"
    using emotionCounts_distinct[of journalEntries] by (simp add: distinct_map)
  then show ?thesis
    unfolding getEmotionStats_def take_map[symmetric] by (rule distinct_take)
qed

lemma keys_increment: "fst ` set (increment counts e) = insert e (fst ` set counts)"
  by (simp add: increment_def dom_update)

lemma keys_foldl_increment:
  "fst ` set (foldl increment counts es) = fst ` set counts \<union> set es"
  by (induction es arbitrary: counts) (auto simp: keys_increment)

lemma emotionCounts_keys:
  "fst ` set (emotionCounts journalEntries) = set (concat (map emotion_list journalEntries))"
  unfolding emotionCounts_def emotionCounts_foldl keys_foldl_increment by simp

lemma emotionCounts_length:
  "length (emotionCounts journalEntries) = card (set (concat (map emotion_list journalEntries)))"
proof -
  have "card (set (map fst (emotionCounts journalEntries))) =
        length (map fst (emotionCounts journalEntries))"
    by (rule distinct_card[OF emotionCounts_distinct])
  then show ?thesis
    using emotionCounts_keys[of journalEntries] by simp
qed

lemma getEmotionStats_length:
  "length (getEmotionStats journalEntries) =
     min 6 (card (set (concat (map emotion_list journalEntries))))"
  by (simp add: getEmotionStats_def emotionCounts_length min.commute)

lemma getEmotionStats_keys:
  "fst ` set (getEmotionStats journalEntries) \<subseteq> set (concat (map emotion_list journalEntries))"
  using getEmotionStats_subset[of journalEntries] emotionCounts_keys[of journalEntries]
  by blast

lemma sorted_take_drop:
  assumes "sorted (map f ys)" and "x \<in> set (take n ys)" and "y \<in> set (drop n ys)"
  shows "f x \<le> f y"
proof -
  have "sorted (map f (take n ys) @ map f (drop n ys))"
    using assms(1) by (simp flip: map_append)
  then show ?thesis
    using assms(2,3) by (auto simp: sorted_append)
qed

lemma getEmotionStats_most_frequent:
  assumes "emotion \<in> set (concat (map emotion_list journalEntries))"
    and "emotion \<notin> fst ` set (getEmotionStats journalEntries)"
    and "(e', c') \<in> set (getEmotionStats journalEntries)"
  shows "(\<Sum>entry\<leftarrow>journalEntries. count_list (emotion_list entry) emotion) \<le> c'"
proof -
  let ?key = "\<lambda>(emotion :: string, count :: nat). - int count"
  let ?ys = "sort_key ?key (emotionCounts journalEntries)"
  from assms(1) obtain c where c: "(emotion, c) \<in> set (emotionCounts journalEntries)"
    using emotionCounts_keys[of journalEntries] by force
  then have occ: "c = (\<Sum>entry\<leftarrow>journalEntries. count_list (emotion_list entry) emotion)"
    by (rule emotionCounts_member)
  from c have "(emotion, c) \<in> set (take 6 ?ys @ drop 6 ?ys)" by simp
  moreover have "(emotion, c) \<notin> set (take 6 ?ys)"
    using assms(2) by (force simp: getEmotionStats_def)
  ultimately have dropped: "(emotion, c) \<in> set (drop 6 ?ys)"
    by (simp only: set_append Un_iff) blast
  have kept: "(e', c') \<in> set (take 6 ?ys)"
    using assms(3) by (simp add: getEmotionStats_def)
  have "sorted (map ?key ?ys)" by (rule sorted_sort_key)
  then have "?key (e', c') \<le> ?key (emotion, c)"
    using kept dropped by (rule sorted_take_drop)
  then show ?thesis using occ by simp
qed

lemma map_throwing_Inr:
  "\<forall>x \<in> set xs. f x = Inr (g x) \<Longrightarrow> map_throwing f xs = Inr (map g xs)"
  by (induction xs) simp_all

lemma map_throwing_project:
  "map_throwing f xs = Inr ys \<Longrightarrow> (\<And>x y. f x = Inr y \<Longrightarrow> h y = g x) \<Longrightarrow> map h ys = map g xs"
proof (induction xs arbitrary: ys)
  case Nil
  then show ?case by simp
next
  case (Cons x xs)
  from Cons.prems(1) obtain y ys' where y: "f x = Inr y" and ys': "map_throwing f xs = Inr ys'"
    and ys: "ys = y # ys'"
    by (auto split: sum.splits)
  have "map h ys' = map g xs"
    using Cons.IH[OF ys'] Cons.prems(2) by blast
  moreover have "h y = g x" using Cons.prems(2)[OF y] .
  ultimately show ?case by (simp add: ys)
qed

lemma truthy_iff: "truthy x \<longleftrightarrow> x \<noteq> None \<and> x \<noteq> Some 0"
  by (cases x) auto

section \<open>Properties of the derivations\<close>

text \<open>
  C1. For a nonempty filtered sequence, every average of \<^verbatim>\<open>getMetricStats\<close> and
  \<^verbatim>\<open>getBiometricStats\<close> is the sum over all records of the attribute's value if
  present, else \<open>0\<close>, divided by the number of records: an absent value is replaced by
  zero and still counted.
\<close>

theorem averages_substitute_zero:
  "(getFilteredData environmentalData selectedLocation \<noteq> [] \<longrightarrow>
      (\<exists>stats. getMetricStats environmentalData selectedLocation = Some stats \<and>
         stat_avg (temperature_stats stats) =
           mean_zero_substituted temperature_avg (getFilteredData environmentalData selectedLocation) \<and>
         stat_avg (humidity_stats stats) =
           mean_zero_substituted humidity (getFilteredData environmentalData selectedLocation) \<and>
         stat_avg (light_stats stats) =
           mean_zero_substituted light_exposure (getFilteredData environmentalData selectedLocation) \<and>
         stat_avg (airQuality_stats stats) =
           mean_zero_substituted air_quality_index (getFilteredData environmentalData selectedLocation))) \<and>
   (getFilteredData biologicalData selectedLocation \<noteq> [] \<longrightarrow>
      (\<exists>stats. getBiometricStats biologicalData selectedLocation = Some stats \<and>
         stat_avg (heartRate_stats stats) =
           mean_zero_substituted heart_rate_resting (getFilteredData biologicalData selectedLocation) \<and>
         stat_avg (hrv_stats stats) =
           mean_zero_substituted heart_rate_variability (getFilteredData biologicalData selectedLocation) \<and>
         stat_avg (sleep_stats stats) =
           mean_zero_substituted sleep_quality_score (getFilteredData biologicalData selectedLocation) \<and>
         avgDuration (sleep_stats stats) =
           mean_zero_substituted sleep_duration (getFilteredData biologicalData selectedLocation) \<and>
         stat_avg (stress_stats stats) =
           mean_zero_substituted stress_level (getFilteredData biologicalData selectedLocation)))"
  by (simp add: getMetricStats_def getBiometricStats_def Let_def reduce_mean)
theorem averages_substitute_zero_witness:
  "getFilteredData
      [\<lparr>location_id = Str ''l1'', date = Str ''2024-05-01'', temperature_avg = Some 10,
        temperature_min = Some 5, temperature_max = Some (- 3), humidity = Some 40,
        light_exposure = Some 800, air_quality_index = Some 30, noise_level = Some 50\<rparr>,
       \<lparr>location_id = Str ''l1'', date = Str ''2024-05-02'', temperature_avg = None,
        temperature_min = None, temperature_max = None, humidity = Some 60,
        light_exposure = None, air_quality_index = Some 50, noise_level = None\<rparr>] (Str ''all'') \<noteq> [] \<and>
   map_option (stat_avg \<circ> temperature_stats) (getMetricStats
      [\<lparr>location_id = Str ''l1'', date = Str ''2024-05-01'', temperature_avg = Some 10,
        temperature_min = Some 5, temperature_max = Some (- 3), humidity = Some 40,
        light_exposure = Some 800, air_quality_index = Some 30, noise_level = Some 50\<rparr>,
       \<lparr>location_id = Str ''l1'', date = Str ''2024-05-02'', temperature_avg = None,
        temperature_min = None, temperature_max = None, humidity = Some 60,
        light_exposure = None, air_quality_index = Some 50, noise_level = None\<rparr>] (Str ''all'')) = Some 5 \<and>
   mean_zero_substituted temperature_avg
      [\<lparr>location_id = Str ''l1'', date = Str ''2024-05-01'', temperature_avg = Some 10,
        temperature_min = Some 5, temperature_max = Some (- 3), humidity = Some 40,
        light_exposure = Some 800, air_quality_index = Some 30, noise_level = Some 50\<rparr>,
       \<lparr>location_id = Str ''l1'', date = Str ''2024-05-02'', temperature_avg = None,
        temperature_min = None, temperature_max = None, humidity = Some 60,
        light_exposure = None, air_quality_index = Some 50, noise_level = None\<rparr>] = 5 \<and>
   getFilteredData
      [\<lparr>location_id = Str ''l1'', date = Str ''2024-05-01'', heart_rate_resting = Some 60,
        heart_rate_variability = Some 40, sleep_quality_score = Some 8, sleep_duration = Some 7,
        stress_level = Some 2\<rparr>,
       \<lparr>location_id = Str ''l1'', date = Str ''2024-05-02'', heart_rate_resting = None,
        heart_rate_variability = Some 20, sleep_quality_score = None, sleep_duration = Some 9,
        stress_level = None\<rparr>] (Str ''all'') \<noteq> [] \<and>
   map_option (stat_avg \<circ> heartRate_stats) (getBiometricStats
      [\<lparr>location_id = Str ''l1'', date = Str ''2024-05-01'', heart_rate_resting = Some 60,
        heart_rate_variability = Some 40, sleep_quality_score = Some 8, sleep_duration = Some 7,
        stress_level = Some 2\<rparr>,
       \<lparr>location_id = Str ''l1'', date = Str ''2024-05-02'', heart_rate_resting = None,
        heart_rate_variability = Some 20, sleep_quality_score = None, sleep_duration = Some 9,
        stress_level = None\<rparr>] (Str ''all'')) = Some 30"
  using averages_substitute_zero
    [of "[\<lparr>location_id = Str ''l1'', date = Str ''2024-05-01'', temperature_avg = Some 10,
        temperature_min = Some 5, temperature_max = Some (- 3), humidity = Some 40,
        light_exposure = Some 800, air_quality_index = Some 30, noise_level = Some 50\<rparr>,
       \<lparr>location_id = Str ''l1'', date = Str ''2024-05-02'', temperature_avg = None,
        temperature_min = None, temperature_max = None, humidity = Some 60,
        light_exposure = None, air_quality_index = Some 50, noise_level = None\<rparr>]" "Str ''all''"
        "[\<lparr>location_id = Str ''l1'', date = Str ''2024-05-01'', heart_rate_resting = Some 60,
        heart_rate_variability = Some 40, sleep_quality_score = Some 8, sleep_duration = Some 7,
        stress_level = Some 2\<rparr>,
       \<lparr>location_id = Str ''l1'', date = Str ''2024-05-02'', heart_rate_resting = None,
        heart_rate_variability = Some 20, sleep_quality_score = None, sleep_duration = Some 9,
        stress_level = None\<rparr>]"]
  by (simp add: getMetricStats_def getBiometricStats_def getFilteredData_def
      mean_zero_substituted_def)

text \<open>
  C2, as amended. For a nonempty filtered sequence, \<^verbatim>\<open>min\<close> and \<^verbatim>\<open>max\<close> of the
  temperature summary are the minimum of \<^verbatim>\<open>temperature_min\<close> and the maximum of
  \<^verbatim>\<open>temperature_max\<close> over all records, with an absent value replaced by \<open>0\<close>; they
  are not taken over \<^verbatim>\<open>temperature_avg\<close>. When every record carries the companion
  attribute they are the true minimum and maximum of its values.
\<close>

theorem companion_min_max:
  assumes "getFilteredData environmentalData selectedLocation \<noteq> []"
  shows "\<exists>stats. getMetricStats environmentalData selectedLocation = Some stats \<and>
     stat_min (temperature_stats stats) =
       Num (Min (set (map (\<lambda>d. case temperature_min d of Some v \<Rightarrow> v | None \<Rightarrow> 0)
                      (getFilteredData environmentalData selectedLocation)))) \<and>
     stat_max (temperature_stats stats) =
       Num (Max (set (map (\<lambda>d. case temperature_max d of Some v \<Rightarrow> v | None \<Rightarrow> 0)
                      (getFilteredData environmentalData selectedLocation)))) \<and>
     ((\<forall>d \<in> set (getFilteredData environmentalData selectedLocation). temperature_min d \<noteq> None) \<longrightarrow>
        stat_min (temperature_stats stats) =
          Num (Min (set (present_values temperature_min
                      (getFilteredData environmentalData selectedLocation))))) \<and>
     ((\<forall>d \<in> set (getFilteredData environmentalData selectedLocation). temperature_max d \<noteq> None) \<longrightarrow>
        stat_max (temperature_stats stats) =
          Num (Max (set (present_values temperature_max
                      (getFilteredData environmentalData selectedLocation)))))"
proof -
  define fd where "fd = getFilteredData environmentalData selectedLocation"
  have ne: "fd \<noteq> []" using assms by (simp add: fd_def)
  define stats where "stats = the (getMetricStats environmentalData selectedLocation)"
  have some: "getMetricStats environmentalData selectedLocation = Some stats"
    using ne by (simp add: stats_def getMetricStats_def fd_def Let_def)
  have smin: "stat_min (temperature_stats stats) = Math_min (map Num (map (\<lambda>d. or_zero (temperature_min d)) fd))"
    using ne by (simp add: stats_def getMetricStats_def fd_def Let_def comp_def)
  have smax: "stat_max (temperature_stats stats) = Math_max (map Num (map (\<lambda>d. or_zero (temperature_max d)) fd))"
    using ne by (simp add: stats_def getMetricStats_def fd_def Let_def comp_def)
  have min0: "stat_min (temperature_stats stats) = Num (Min (set (map (\<lambda>d. or_zero (temperature_min d)) fd)))"
    unfolding smin using ne by (intro Math_min_Num) simp
  have max0: "stat_max (temperature_stats stats) = Num (Max (set (map (\<lambda>d. or_zero (temperature_max d)) fd)))"
    unfolding smax using ne by (intro Math_max_Num) simp
  have "stat_min (temperature_stats stats) = Num (Min (set (present_values temperature_min fd)))"
    if "\<forall>d \<in> set fd. temperature_min d \<noteq> None"
    using min0 present_values_all[OF that] by simp
  moreover have "stat_max (temperature_stats stats) = Num (Max (set (present_values temperature_max fd)))"
    if "\<forall>d \<in> set fd. temperature_max d \<noteq> None"
    using max0 present_values_all[OF that] by simp
  ultimately show ?thesis
    using some min0 max0 unfolding fd_def[symmetric] or_zero_case by blast
qed

theorem companion_min_max_witness:
  "getFilteredData
      [\<lparr>location_id = Str ''l1'', date = Str ''2024-05-01'', temperature_avg = Some 10,
        temperature_min = Some 5, temperature_max = Some 12, humidity = Some 40,
        light_exposure = Some 800, air_quality_index = Some 30, noise_level = Some 50\<rparr>,
       \<lparr>location_id = Str ''l1'', date = Str ''2024-05-02'', temperature_avg = Some 14,
        temperature_min = Some 2, temperature_max = Some 20, humidity = Some 60,
        light_exposure = Some 900, air_quality_index = Some 50, noise_level = Some 40\<rparr>] (Str ''all'') \<noteq> [] \<and>
   map_option (stat_min \<circ> temperature_stats) (getMetricStats
      [\<lparr>location_id = Str ''l1'', date = Str ''2024-05-01'', temperature_avg = Some 10,
        temperature_min = Some 5, temperature_max = Some 12, humidity = Some 40,
        light_exposure = Some 800, air_quality_index = Some 30, noise_level = Some 50\<rparr>,
       \<lparr>location_id = Str ''l1'', date = Str ''2024-05-02'', temperature_avg = Some 14,
        temperature_min = Some 2, temperature_max = Some 20, humidity = Some 60,
        light_exposure = Some 900, air_quality_index = Some 50, noise_level = Some 40\<rparr>] (Str ''all'')) = Some (Num 2) \<and>
   map_option (stat_max \<circ> temperature_stats) (getMetricStats
      [\<lparr>location_id = Str ''l1'', date = Str ''2024-05-01'', temperature_avg = Some 10,
        temperature_min = Some 5, temperature_max = Some 12, humidity = Some 40,
        light_exposure = Some 800, air_quality_index = Some 30, noise_level = Some 50\<rparr>,
       \<lparr>location_id = Str ''l1'', date = Str ''2024-05-02'', temperature_avg = Some 14,
        temperature_min = Some 2, temperature_max = Some 20, humidity = Some 60,
        light_exposure = Some 900, air_quality_index = Some 50, noise_level = Some 40\<rparr>] (Str ''all'')) = Some (Num 20) \<and>
   Min (set (present_values temperature_min
      [\<lparr>location_id = Str ''l1'', date = Str ''2024-05-01'', temperature_avg = Some 10,
        temperature_min = Some 5, temperature_max = Some 12, humidity = Some 40,
        light_exposure = Some 800, air_quality_index = Some 30, noise_level = Some 50\<rparr>,
       \<lparr>location_id = Str ''l1'', date = Str ''2024-05-02'', temperature_avg = Some 14,
        temperature_min = Some 2, temperature_max = Some 20, humidity = Some 60,
        light_exposure = Some 900, air_quality_index = Some 50, noise_level = Some 40\<rparr>])) = 2 \<and>
   Max (set (present_values temperature_max
      [\<lparr>location_id = Str ''l1'', date = Str ''2024-05-01'', temperature_avg = Some 10,
        temperature_min = Some 5, temperature_max = Some 12, humidity = Some 40,
        light_exposure = Some 800, air_quality_index = Some 30, noise_level = Some 50\<rparr>,
       \<lparr>location_id = Str ''l1'', date = Str ''2024-05-02'', temperature_avg = Some 14,
        temperature_min = Some 2, temperature_max = Some 20, humidity = Some 60,
        light_exposure = Some 900, air_quality_index = Some 50, noise_level = Some 40\<rparr>])) = 20"
  using companion_min_max
    [of "[\<lparr>location_id = Str ''l1'', date = Str ''2024-05-01'', temperature_avg = Some 10,
        temperature_min = Some 5, temperature_max = Some 12, humidity = Some 40,
        light_exposure = Some 800, air_quality_index = Some 30, noise_level = Some 50\<rparr>,
       \<lparr>location_id = Str ''l1'', date = Str ''2024-05-02'', temperature_avg = Some 14,
        temperature_min = Some 2, temperature_max = Some 20, humidity = Some 60,
        light_exposure = Some 900, air_quality_index = Some 50, noise_level = Some 40\<rparr>]" "Str ''all''"]
  by (simp add: getMetricStats_def getFilteredData_def Math_min_def Math_max_def
      present_values_def List.map_filter_simps)

text \<open>
  C2 as stated fails when a companion attribute is absent: of two records, one with
  \<^verbatim>\<open>temperature_min = 5\<close> and \<^verbatim>\<open>temperature_max = -3\<close> and one without either, the
  summary reports \<open>0\<close> for both, while the only values present are \<open>5\<close> and \<open>-3\<close>.
\<close>

theorem companion_min_max_counterexample:
  "map_option (stat_min \<circ> temperature_stats) (getMetricStats
      [\<lparr>location_id = Str ''l1'', date = Str ''2024-05-01'', temperature_avg = Some 10,
        temperature_min = Some 5, temperature_max = Some (- 3), humidity = Some 40,
        light_exposure = Some 800, air_quality_index = Some 30, noise_level = Some 50\<rparr>,
       \<lparr>location_id = Str ''l1'', date = Str ''2024-05-02'', temperature_avg = None,
        temperature_min = None, temperature_max = None, humidity = Some 60,
        light_exposure = None, air_quality_index = Some 50, noise_level = None\<rparr>] (Str ''all'')) = Some (Num 0) \<and>
   Min (set (present_values temperature_min
      [\<lparr>location_id = Str ''l1'', date = Str ''2024-05-01'', temperature_avg = Some 10,
        temperature_min = Some 5, temperature_max = Some (- 3), humidity = Some 40,
        light_exposure = Some 800, air_quality_index = Some 30, noise_level = Some 50\<rparr>,
       \<lparr>location_id = Str ''l1'', date = Str ''2024-05-02'', temperature_avg = None,
        temperature_min = None, temperature_max = None, humidity = Some 60,
        light_exposure = None, air_quality_index = Some 50, noise_level = None\<rparr>])) = 5 \<and>
   map_option (stat_max \<circ> temperature_stats) (getMetricStats
      [\<lparr>location_id = Str ''l1'', date = Str ''2024-05-01'', temperature_avg = Some 10,
        temperature_min = Some 5, temperature_max = Some (- 3), humidity = Some 40,
        light_exposure = Some 800, air_quality_index = Some 30, noise_level = Some 50\<rparr>,
       \<lparr>location_id = Str ''l1'', date = Str ''2024-05-02'', temperature_avg = None,
        temperature_min = None, temperature_max = None, humidity = Some 60,
        light_exposure = None, air_quality_index = Some 50, noise_level = None\<rparr>] (Str ''all'')) = Some (Num 0) \<and>
   Max (set (present_values temperature_max
      [\<lparr>location_id = Str ''l1'', date = Str ''2024-05-01'', temperature_avg = Some 10,
        temperature_min = Some 5, temperature_max = Some (- 3), humidity = Some 40,
        light_exposure = Some 800, air_quality_index = Some 30, noise_level = Some 50\<rparr>,
       \<lparr>location_id = Str ''l1'', date = Str ''2024-05-02'', temperature_avg = None,
        temperature_min = None, temperature_max = None, humidity = Some 60,
        light_exposure = None, air_quality_index = Some 50, noise_level = None\<rparr>])) = - 3"
  by (simp add: getMetricStats_def getFilteredData_def Math_min_def Math_max_def
      present_values_def List.map_filter_simps)

text \<open>
  C3. With scope \<^verbatim>\<open>"all"\<close>, \<^verbatim>\<open>getFilteredData\<close> returns the records unchanged; with
  any other scope \<open>X\<close> it returns exactly the records whose \<^verbatim>\<open>location_id\<close> is \<open>X\<close>,
  in their original relative order, and the empty sequence when none matches.
\<close>

theorem getFilteredData_scope:
  "getFilteredData records (Str ''all'') = records \<and>
   (X \<noteq> Str ''all'' \<longrightarrow>
      getFilteredData records X = filter (\<lambda>d. location_id d = X) records \<and>
      subseq (getFilteredData records X) records \<and>
      set (getFilteredData records X) = {d \<in> set records. location_id d = X} \<and>
      ((\<forall>d \<in> set records. location_id d \<noteq> X) \<longrightarrow> getFilteredData records X = []))"
  by (auto simp: getFilteredData_def filter_empty_conv)

theorem getFilteredData_scope_witness:
  "Str ''paris'' \<noteq> Str ''all'' \<and>
   getFilteredData
     [\<lparr>location_id = Str ''paris'', date = Str ''2024-05-01''\<rparr>,
      \<lparr>location_id = Str ''oslo'', date = Str ''2024-05-02''\<rparr>,
      \<lparr>location_id = Str ''paris'', date = Str ''2024-05-03''\<rparr>] (Str ''paris'')
   = [\<lparr>location_id = Str ''paris'', date = Str ''2024-05-01''\<rparr>,
      \<lparr>location_id = Str ''paris'', date = Str ''2024-05-03''\<rparr>] \<and>
   getFilteredData
     [\<lparr>location_id = Str ''paris'', date = Str ''2024-05-01''\<rparr>,
      \<lparr>location_id = Str ''oslo'', date = Str ''2024-05-02''\<rparr>] (Str ''rome'') = []"
  using getFilteredData_scope
    [of "[\<lparr>location_id = Str ''paris'', date = Str ''2024-05-01''\<rparr>,
      \<lparr>location_id = Str ''oslo'', date = Str ''2024-05-02''\<rparr>,
      \<lparr>location_id = Str ''paris'', date = Str ''2024-05-03''\<rparr>]" "Str ''paris''"]
    getFilteredData_scope
    [of "[\<lparr>location_id = Str ''paris'', date = Str ''2024-05-01''\<rparr>,
      \<lparr>location_id = Str ''oslo'', date = Str ''2024-05-02''\<rparr>]" "Str ''rome''"]
  by simp

text \<open>
  C4. \<^verbatim>\<open>getLocationName\<close> returns the name of the first location whose id is the
  given one, and \<^verbatim>\<open>"Unknown Location"\<close> when no location has that id, also for the
  ids \<^verbatim>\<open>null\<close> and \<^verbatim>\<open>undefined\<close>. It has no failing branch: the result is a string
  for every input.
\<close>

theorem getLocationName_resolves:
  "((\<forall>loc \<in> set locations. loc_id loc \<noteq> locationId) \<longrightarrow>
      getLocationName locations locationId = ''Unknown Location'') \<and>
   (i < length locations \<and> loc_id (locations ! i) = locationId \<and>
      (\<forall>j<i. loc_id (locations ! j) \<noteq> locationId) \<longrightarrow>
      getLocationName locations locationId = name (locations ! i)) \<and>
   ((\<forall>loc \<in> set locations. loc_id loc \<noteq> Null) \<longrightarrow>
      getLocationName locations Null = ''Unknown Location'') \<and>
   ((\<forall>loc \<in> set locations. loc_id loc \<noteq> Undefined) \<longrightarrow>
      getLocationName locations Undefined = ''Unknown Location'')"
proof -
  have none: "getLocationName locations k = ''Unknown Location''"
    if "\<forall>loc \<in> set locations. loc_id loc \<noteq> k" for k
  proof -
    from that have "find (\<lambda>loc. loc_id loc = k) locations = None"
      by (simp add: find_None_iff)
    then show ?thesis by (simp add: getLocationName_def)
  qed
  have first: "getLocationName locations locationId = name (locations ! i)"
    if "i < length locations" "loc_id (locations ! i) = locationId"
       "\<forall>j<i. loc_id (locations ! j) \<noteq> locationId"
    using find_first_index[of i locations "\<lambda>loc. loc_id loc = locationId"] that
    by (simp add: getLocationName_def)
  show ?thesis using none first by blast
qed

theorem getLocationName_resolves_witness:
  "getLocationName
     [\<lparr>loc_id = Str ''l1'', name = ''Oslo''\<rparr>, \<lparr>loc_id = Str ''l2'', name = ''Lima''\<rparr>,
      \<lparr>loc_id = Str ''l2'', name = ''Kyoto''\<rparr>] (Str ''l2'') = ''Lima'' \<and>
   getLocationName
     [\<lparr>loc_id = Str ''l1'', name = ''Oslo''\<rparr>, \<lparr>loc_id = Str ''l2'', name = ''Lima''\<rparr>,
      \<lparr>loc_id = Str ''l2'', name = ''Kyoto''\<rparr>] Undefined = ''Unknown Location''"
  using getLocationName_resolves
    [of "[\<lparr>loc_id = Str ''l1'', name = ''Oslo''\<rparr>, \<lparr>loc_id = Str ''l2'', name = ''Lima''\<rparr>,
      \<lparr>loc_id = Str ''l2'', name = ''Kyoto''\<rparr>]" "Str ''l2''" 1]
    getLocationName_resolves
    [of "[\<lparr>loc_id = Str ''l1'', name = ''Oslo''\<rparr>, \<lparr>loc_id = Str ''l2'', name = ''Lima''\<rparr>,
      \<lparr>loc_id = Str ''l2'', name = ''Kyoto''\<rparr>]" "Undefined" 0]
  by simp

text \<open>
  C5. For a fixed \<open>maxScale > 0\<close>, \<open>normalize v maxScale = min 100 ((v / maxScale) * 100)\<close>
  is non-decreasing in \<open>v\<close>, and at most \<open>100\<close> for every \<open>v \<ge> 0\<close>.
\<close>

theorem normalize_monotone_clamped:
  "0 < maxScale \<Longrightarrow>
     (v \<le> w \<longrightarrow> normalize v maxScale \<le> normalize w maxScale) \<and>
     (0 \<le> v \<longrightarrow> normalize v maxScale \<le> 100)"
  by (auto simp: normalize_def divide_right_mono min_le_iff_disj)

theorem normalize_monotone_clamped_witness:
  "(0::real) < 40 \<and> (20::real) \<le> 30 \<and> normalize 20 40 = 50 \<and> normalize 30 40 = 75 \<and>
   normalize 60 40 = 100"
  using normalize_monotone_clamped[of 40 20 30]
  by (simp add: normalize_def)

text \<open>
  The four rescaled columns of \<^verbatim>\<open>prepareRadarData\<close> are instances of \<open>normalize\<close>,
  so every row it returns stays within the radar's scale.
\<close>

lemma prepareRadarData_clamped:
  "row \<in> set (prepareRadarData locations environmentalData selectedLocation) \<Longrightarrow>
     Temperature row \<le> 100 \<and> Light row \<le> 100 \<and> Air_Quality row \<le> 100 \<and> Noise row \<le> 100"
  by (auto simp: prepareRadarData_def normalize_def Let_def split: if_splits)

text \<open>
  C6. A record with \<^verbatim>\<open>heart_rate_variability = 50\<close>, \<^verbatim>\<open>sleep_quality_score = 10\<close>,
  \<^verbatim>\<open>stress_level = 0\<close> scores exactly \<open>100\<close>; one with \<open>0\<close>, \<open>0\<close> and \<open>10\<close> scores
  exactly \<open>0\<close>.
\<close>

theorem calculateHarmonyScore_endpoints:
  "calculateHarmonyScore (d\<lparr>heart_rate_variability := Some 50, sleep_quality_score := Some 10,
       stress_level := Some 0\<rparr>) = Num 100 \<and>
   calculateHarmonyScore (d\<lparr>heart_rate_variability := Some 0, sleep_quality_score := Some 0,
       stress_level := Some 10\<rparr>) = Num 0"
  by (simp add: calculateHarmonyScore_def)

text \<open>
  C7. For a record with \<^verbatim>\<open>heart_rate_variability\<close> \<open>\<ge> 0\<close> and
  \<^verbatim>\<open>sleep_quality_score\<close>, \<^verbatim>\<open>stress_level\<close> in \<open>[0, 10]\<close>, the harmony score is a
  number in \<open>[0, 100]\<close>. The HRV sub-score is capped at \<open>100\<close>: from
  \<^verbatim>\<open>heart_rate_variability = 50\<close> on it contributes exactly \<open>100\<close>. It has no floor:
  with \<^verbatim>\<open>heart_rate_variability = -50\<close> the score is \<open>-100/3\<close>.
\<close>

theorem calculateHarmonyScore_bounds:
  assumes "heart_rate_variability d = Some h" and "sleep_quality_score d = Some s"
    and "stress_level d = Some t"
    and "0 \<le> h" and "0 \<le> s" and "s \<le> 10" and "0 \<le> t" and "t \<le> 10"
  shows "(\<exists>x. calculateHarmonyScore d = Num x \<and> 0 \<le> x \<and> x \<le> 100) \<and>
   calculateHarmonyScore (d\<lparr>heart_rate_variability := Some (- 50), sleep_quality_score := Some 0,
       stress_level := Some 10\<rparr>) = Num (- 100 / 3) \<and>
   (50 \<le> h \<longrightarrow>
      calculateHarmonyScore d = Num ((100 + (s / 10) * 100 + ((10 - t) / 10) * 100) / 3))"
proof -
  define hrvScore where "hrvScore = min 100 ((h / 50) * 100)"
  define sleepScore where "sleepScore = (s / 10) * 100"
  define stressScore where "stressScore = ((10 - t) / 10) * 100"
  have score: "calculateHarmonyScore d = Num ((hrvScore + sleepScore + stressScore) / 3)"
    using assms(1-3)
    by (simp add: calculateHarmonyScore_def hrvScore_def sleepScore_def stressScore_def)
  have "0 \<le> hrvScore" "hrvScore \<le> 100"
    using assms(4) by (simp_all add: hrvScore_def)
  moreover have "0 \<le> sleepScore" "sleepScore \<le> 100"
    using assms(5,6) by (simp_all add: sleepScore_def)
  moreover have "0 \<le> stressScore" "stressScore \<le> 100"
    using assms(7,8) by (simp_all add: stressScore_def)
  ultimately have "0 \<le> (hrvScore + sleepScore + stressScore) / 3"
    and "(hrvScore + sleepScore + stressScore) / 3 \<le> 100"
    by simp_all
  with score have "\<exists>x. calculateHarmonyScore d = Num x \<and> 0 \<le> x \<and> x \<le> 100"
    by blast
  moreover have "calculateHarmonyScore (d\<lparr>heart_rate_variability := Some (- 50),
      sleep_quality_score := Some 0, stress_level := Some 10\<rparr>) = Num (- 100 / 3)"
    by (simp add: calculateHarmonyScore_def)
  moreover have "calculateHarmonyScore d = Num ((100 + (s / 10) * 100 + ((10 - t) / 10) * 100) / 3)"
    if "50 \<le> h"
  proof -
    from that have "hrvScore = 100" by (simp add: hrvScore_def)
    with score show ?thesis by (simp add: sleepScore_def stressScore_def)
  qed
  ultimately show ?thesis by blast
qed

theorem calculateHarmonyScore_bounds_witness:
  "(0::real) \<le> 25 \<and> (0::real) \<le> 7 \<and> (7::real) \<le> 10 \<and> (0::real) \<le> 4 \<and> (4::real) \<le> 10 \<and>
   calculateHarmonyScore
     \<lparr>location_id = Str ''l1'', date = Str ''2024-05-01'', heart_rate_resting = Some 60,
      heart_rate_variability = Some 25, sleep_quality_score = Some 7, sleep_duration = Some 8,
      stress_level = Some 4\<rparr> = Num 60 \<and>
   (50::real) \<le> 80 \<and>
   calculateHarmonyScore
     \<lparr>location_id = Str ''l1'', date = Str ''2024-05-02'', heart_rate_resting = Some 55,
      heart_rate_variability = Some 80, sleep_quality_score = Some 7, sleep_duration = Some 8,
      stress_level = Some 4\<rparr> = Num (230 / 3)"
  using calculateHarmonyScore_bounds
    [of "\<lparr>location_id = Str ''l1'', date = Str ''2024-05-01'', heart_rate_resting = Some 60,
      heart_rate_variability = Some 25, sleep_quality_score = Some 7, sleep_duration = Some 8,
      stress_level = Some 4\<rparr>" 25 7 4]
    calculateHarmonyScore_bounds
    [of "\<lparr>location_id = Str ''l1'', date = Str ''2024-05-02'', heart_rate_resting = Some 55,
      heart_rate_variability = Some 80, sleep_quality_score = Some 7, sleep_duration = Some 8,
      stress_level = Some 4\<rparr>" 80 7 4]
  by (simp add: calculateHarmonyScore_def)


text \<open>
  C8, as amended. On the empty sequence the insight expressions give \<^verbatim>\<open>undefined\<close>,
  neither an exception nor a default number. On a nonempty sequence in which every record
  carries the selected attribute as a number, Best Recovery returns the record at the
  first index holding the overall maximum of \<^verbatim>\<open>hrv\<close>, and Calmest Environment the
  record at the first index holding the overall minimum of \<^verbatim>\<open>stress_level\<close>: every
  value is bounded by it and no earlier record has it, so a tie goes to the first
  occurrence. When some record lacks the selected attribute, the result is
  \<^verbatim>\<open>undefined\<close> as well.
\<close>

theorem extremum_first_occurrence:
  "bestLocation_recovery [] = None \<and> calmestLocation [] = None \<and>
   (harmonyData \<noteq> [] \<and> (\<forall>d \<in> set harmonyData. hrv d \<noteq> None) \<longrightarrow>
      (\<exists>i<length harmonyData.
         bestLocation_recovery harmonyData = Some (harmonyData ! i) \<and>
         (\<exists>m. hrv (harmonyData ! i) = Some m \<and>
              (\<forall>j<length harmonyData. \<exists>v. hrv (harmonyData ! j) = Some v \<and> v \<le> m) \<and>
              (\<forall>j<i. hrv (harmonyData ! j) \<noteq> Some m)))) \<and>
   (harmonyData \<noteq> [] \<and> (\<forall>d \<in> set harmonyData. hz_stress_level d \<noteq> None) \<longrightarrow>
      (\<exists>i<length harmonyData.
         calmestLocation harmonyData = Some (harmonyData ! i) \<and>
         (\<exists>m. hz_stress_level (harmonyData ! i) = Some m \<and>
              (\<forall>j<length harmonyData. \<exists>v. hz_stress_level (harmonyData ! j) = Some v \<and> m \<le> v) \<and>
              (\<forall>j<i. hz_stress_level (harmonyData ! j) \<noteq> Some m)))) \<and>
   ((\<exists>d \<in> set harmonyData. hrv d = None) \<longrightarrow> bestLocation_recovery harmonyData = None) \<and>
   ((\<exists>d \<in> set harmonyData. hz_stress_level d = None) \<longrightarrow> calmestLocation harmonyData = None)"
proof -
  have "bestLocation_recovery [] = None" "calmestLocation [] = None"
    by (simp_all add: bestLocation_recovery_def calmestLocation_def)
  moreover have "\<exists>i<length harmonyData.
         bestLocation_recovery harmonyData = Some (harmonyData ! i) \<and>
         (\<exists>m. hrv (harmonyData ! i) = Some m \<and>
              (\<forall>j<length harmonyData. \<exists>v. hrv (harmonyData ! j) = Some v \<and> v \<le> m) \<and>
              (\<forall>j<i. hrv (harmonyData ! j) \<noteq> Some m))"
    if "harmonyData \<noteq> []" "\<forall>d \<in> set harmonyData. hrv d \<noteq> None"
    using first_maximum[OF that] by (simp add: bestLocation_recovery_def)
  moreover have "\<exists>i<length harmonyData.
         calmestLocation harmonyData = Some (harmonyData ! i) \<and>
         (\<exists>m. hz_stress_level (harmonyData ! i) = Some m \<and>
              (\<forall>j<length harmonyData. \<exists>v. hz_stress_level (harmonyData ! j) = Some v \<and> m \<le> v) \<and>
              (\<forall>j<i. hz_stress_level (harmonyData ! j) \<noteq> Some m))"
    if "harmonyData \<noteq> []" "\<forall>d \<in> set harmonyData. hz_stress_level d \<noteq> None"
    using first_minimum[OF that] by (simp add: calmestLocation_def)
  moreover have "bestLocation_recovery harmonyData = None"
    if "\<exists>d \<in> set harmonyData. hrv d = None"
    using that by (rule extremum_absent_value(1))
  moreover have "calmestLocation harmonyData = None"
    if "\<exists>d \<in> set harmonyData. hz_stress_level d = None"
    using that by (rule extremum_absent_value(2))
  ultimately show ?thesis by blast
qed

theorem extremum_first_occurrence_witness:
  "bestLocation_recovery
     [\<lparr>hz_location = ''Oslo'', hz_date = ''May 1'', harmony_score = Num 42,
       hz_stress_level = Some 4, sleep_quality = Some 6, hrv = Some 3\<rparr>,
      \<lparr>hz_location = ''Lima'', hz_date = ''May 2'', harmony_score = Num 80,
       hz_stress_level = Some 2, sleep_quality = Some 6, hrv = Some 5\<rparr>,
      \<lparr>hz_location = ''Kyoto'', hz_date = ''May 3'', harmony_score = Num 80,
       hz_stress_level = Some 2, sleep_quality = Some 6, hrv = Some 5\<rparr>,
      \<lparr>hz_location = ''Cairo'', hz_date = ''May 4'', harmony_score = Num 34,
       hz_stress_level = Some 6, sleep_quality = Some 6, hrv = Some 1\<rparr>] = Some
      \<lparr>hz_location = ''Lima'', hz_date = ''May 2'', harmony_score = Num 80,
       hz_stress_level = Some 2, sleep_quality = Some 6, hrv = Some 5\<rparr> \<and>
   calmestLocation
     [\<lparr>hz_location = ''Oslo'', hz_date = ''May 1'', harmony_score = Num 42,
       hz_stress_level = Some 4, sleep_quality = Some 6, hrv = Some 3\<rparr>,
      \<lparr>hz_location = ''Lima'', hz_date = ''May 2'', harmony_score = Num 80,
       hz_stress_level = Some 2, sleep_quality = Some 6, hrv = Some 5\<rparr>,
      \<lparr>hz_location = ''Kyoto'', hz_date = ''May 3'', harmony_score = Num 80,
       hz_stress_level = Some 2, sleep_quality = Some 6, hrv = Some 5\<rparr>,
      \<lparr>hz_location = ''Cairo'', hz_date = ''May 4'', harmony_score = Num 34,
       hz_stress_level = Some 6, sleep_quality = Some 6, hrv = Some 1\<rparr>] = Some
      \<lparr>hz_location = ''Lima'', hz_date = ''May 2'', harmony_score = Num 80,
       hz_stress_level = Some 2, sleep_quality = Some 6, hrv = Some 5\<rparr> \<and>
   bestLocation_recovery
     [\<lparr>hz_location = ''Oslo'', hz_date = ''May 1'', harmony_score = NaN,
       hz_stress_level = None, sleep_quality = Some 6, hrv = None\<rparr>,
      \<lparr>hz_location = ''Lima'', hz_date = ''May 2'', harmony_score = Num 80,
       hz_stress_level = Some 2, sleep_quality = Some 6, hrv = Some 5\<rparr>] = None \<and>
   calmestLocation
     [\<lparr>hz_location = ''Oslo'', hz_date = ''May 1'', harmony_score = NaN,
       hz_stress_level = None, sleep_quality = Some 6, hrv = None\<rparr>,
      \<lparr>hz_location = ''Lima'', hz_date = ''May 2'', harmony_score = Num 80,
       hz_stress_level = Some 2, sleep_quality = Some 6, hrv = Some 5\<rparr>] = None"
  using extremum_first_occurrence
    [of "[\<lparr>hz_location = ''Oslo'', hz_date = ''May 1'', harmony_score = Num 42,
       hz_stress_level = Some 4, sleep_quality = Some 6, hrv = Some 3\<rparr>,
      \<lparr>hz_location = ''Lima'', hz_date = ''May 2'', harmony_score = Num 80,
       hz_stress_level = Some 2, sleep_quality = Some 6, hrv = Some 5\<rparr>,
      \<lparr>hz_location = ''Kyoto'', hz_date = ''May 3'', harmony_score = Num 80,
       hz_stress_level = Some 2, sleep_quality = Some 6, hrv = Some 5\<rparr>,
      \<lparr>hz_location = ''Cairo'', hz_date = ''May 4'', harmony_score = Num 34,
       hz_stress_level = Some 6, sleep_quality = Some 6, hrv = Some 1\<rparr>]"]
    extremum_first_occurrence
    [of "[\<lparr>hz_location = ''Oslo'', hz_date = ''May 1'', harmony_score = NaN,
       hz_stress_level = None, sleep_quality = Some 6, hrv = None\<rparr>,
      \<lparr>hz_location = ''Lima'', hz_date = ''May 2'', harmony_score = Num 80,
       hz_stress_level = Some 2, sleep_quality = Some 6, hrv = Some 5\<rparr>]"]
  by (simp add: bestLocation_recovery_def calmestLocation_def Math_max_def Math_min_def)

text \<open>
  C8 as stated fails when a record lacks the selected attribute: of two records, the first
  without \<^verbatim>\<open>hrv\<close> and \<^verbatim>\<open>stress_level\<close> and the second with \<^verbatim>\<open>hrv = 5\<close> and
  \<^verbatim>\<open>stress_level = 2\<close>, neither expression returns the second record, although it
  holds the only, and so the extreme, value.
\<close>

theorem extremum_first_occurrence_counterexample:
  "bestLocation_recovery
     [\<lparr>hz_location = ''Oslo'', hz_date = ''May 1'', harmony_score = NaN,
       hz_stress_level = None, sleep_quality = Some 6, hrv = None\<rparr>,
      \<lparr>hz_location = ''Lima'', hz_date = ''May 2'', harmony_score = Num 80,
       hz_stress_level = Some 2, sleep_quality = Some 6, hrv = Some 5\<rparr>] = None \<and>
   present_values hrv
     [\<lparr>hz_location = ''Oslo'', hz_date = ''May 1'', harmony_score = NaN,
       hz_stress_level = None, sleep_quality = Some 6, hrv = None\<rparr>,
      \<lparr>hz_location = ''Lima'', hz_date = ''May 2'', harmony_score = Num 80,
       hz_stress_level = Some 2, sleep_quality = Some 6, hrv = Some 5\<rparr>] = [5] \<and>
   calmestLocation
     [\<lparr>hz_location = ''Oslo'', hz_date = ''May 1'', harmony_score = NaN,
       hz_stress_level = None, sleep_quality = Some 6, hrv = None\<rparr>,
      \<lparr>hz_location = ''Lima'', hz_date = ''May 2'', harmony_score = Num 80,
       hz_stress_level = Some 2, sleep_quality = Some 6, hrv = Some 5\<rparr>] = None \<and>
   present_values hz_stress_level
     [\<lparr>hz_location = ''Oslo'', hz_date = ''May 1'', harmony_score = NaN,
       hz_stress_level = None, sleep_quality = Some 6, hrv = None\<rparr>,
      \<lparr>hz_location = ''Lima'', hz_date = ''May 2'', harmony_score = Num 80,
       hz_stress_level = Some 2, sleep_quality = Some 6, hrv = Some 5\<rparr>] = [2]"
  by (simp add: bestLocation_recovery_def calmestLocation_def Math_max_def Math_min_def
      present_values_def List.map_filter_simps)



text \<open>
  C9. \<^verbatim>\<open>getEmotionStats\<close> returns at most 6 pairs of an emotion and a count: as many
  as there are emotions occurring in the entries, up to 6, with pairwise different
  emotions, each of them occurring, sorted by non-increasing count. Each count is the
  number of occurrences of the emotion in the \<^verbatim>\<open>emotions\<close> arrays of all entries;
  where no array repeats an emotion (\<^verbatim>\<open>emotions\<close> is a set) it is the number of
  entries whose emotions contain it. An occurring emotion that is left out occurs no
  more often than any emotion returned, and none is left out when at most 6 occur.
\<close>

theorem getEmotionStats_top_counts:
  "length (getEmotionStats journalEntries) \<le> 6 \<and>
   length (getEmotionStats journalEntries) =
     min 6 (card (set (concat (map emotion_list journalEntries)))) \<and>
   sorted_wrt (\<lambda>p q. snd q \<le> snd p) (getEmotionStats journalEntries) \<and>
   distinct (map fst (getEmotionStats journalEntries)) \<and>
   fst ` set (getEmotionStats journalEntries) \<subseteq> set (concat (map emotion_list journalEntries)) \<and>
   (\<forall>(emotion, count) \<in> set (getEmotionStats journalEntries).
      count = (\<Sum>entry\<leftarrow>journalEntries. count_list (emotion_list entry) emotion)) \<and>
   (\<forall>emotion \<in> set (concat (map emotion_list journalEntries)).
      emotion \<notin> fst ` set (getEmotionStats journalEntries) \<longrightarrow>
      (\<forall>(e', c') \<in> set (getEmotionStats journalEntries).
         (\<Sum>entry\<leftarrow>journalEntries. count_list (emotion_list entry) emotion) \<le> c')) \<and>
   (card (set (concat (map emotion_list journalEntries))) \<le> 6 \<longrightarrow>
      fst ` set (getEmotionStats journalEntries) = set (concat (map emotion_list journalEntries))) \<and>
   ((\<forall>entry \<in> set journalEntries. distinct (emotion_list entry)) \<longrightarrow>
    (\<forall>(emotion, count) \<in> set (getEmotionStats journalEntries).
      count = length (filter (\<lambda>entry. emotion \<in> set (emotion_list entry)) journalEntries)))"
proof -
  let ?E = "set (concat (map emotion_list journalEntries))"
  have len: "length (getEmotionStats journalEntries) = min 6 (card ?E)"
    by (rule getEmotionStats_length)
  then have le6: "length (getEmotionStats journalEntries) \<le> 6" by simp
  have occ: "c = (\<Sum>entry\<leftarrow>journalEntries. count_list (emotion_list entry) e)"
    if "(e, c) \<in> set (getEmotionStats journalEntries)" for e c
    using that getEmotionStats_subset emotionCounts_member by blast
  have ent: "c = length (filter (\<lambda>entry. e \<in> set (emotion_list entry)) journalEntries)"
    if "(e, c) \<in> set (getEmotionStats journalEntries)"
      and d: "\<forall>entry \<in> set journalEntries. distinct (emotion_list entry)" for e c
  proof -
    have "(\<Sum>entry\<leftarrow>journalEntries. count_list (emotion_list entry) e) =
          (\<Sum>entry\<leftarrow>journalEntries. if e \<in> set (emotion_list entry) then 1 else 0)"
      using d by (intro arg_cong[where f = sum_list] map_cong) (simp_all add: count_list_distinct)
    also have "\<dots> = length (filter (\<lambda>entry. e \<in> set (emotion_list entry)) journalEntries)"
      by (rule sum_list_indicator)
    finally show ?thesis
      using occ[OF that(1)] by simp
  qed
  have top: "(\<Sum>entry\<leftarrow>journalEntries. count_list (emotion_list entry) emotion) \<le> c'"
    if "emotion \<in> ?E" "emotion \<notin> fst ` set (getEmotionStats journalEntries)"
       "(e', c') \<in> set (getEmotionStats journalEntries)" for emotion e' c'
    using that by (rule getEmotionStats_most_frequent)
  have all: "fst ` set (getEmotionStats journalEntries) = ?E" if "card ?E \<le> 6"
  proof (rule card_subset_eq)
    show "finite ?E" by simp
    show "fst ` set (getEmotionStats journalEntries) \<subseteq> ?E" by (rule getEmotionStats_keys)
    have "card (fst ` set (getEmotionStats journalEntries)) =
          length (map fst (getEmotionStats journalEntries))"
      using distinct_card[OF getEmotionStats_distinct[of journalEntries]] by simp
    then show "card (fst ` set (getEmotionStats journalEntries)) = card ?E"
      using len that by simp
  qed
  show ?thesis
    using le6 len getEmotionStats_sorted getEmotionStats_distinct getEmotionStats_keys
      occ ent top all
    by blast
qed

theorem getEmotionStats_top_counts_witness:
  "list_all (\<lambda>entry. distinct (emotion_list entry))
     [\<lparr>location_id = Str ''l1'', date = Str ''May 1'', emotions = Some [''calm'', ''joy'', ''fear'', ''wonder''],
       mood_score = Some 7, highlight_moment = False\<rparr>,
      \<lparr>location_id = Str ''l2'', date = Str ''May 2'', emotions = Some [''calm'', ''joy'', ''peace'', ''stress''],
       mood_score = Some 5, highlight_moment = False\<rparr>,
      \<lparr>location_id = Str ''l1'', date = Str ''May 3'', emotions = None,
       mood_score = None, highlight_moment = False\<rparr>,
      \<lparr>location_id = Str ''l3'', date = Str ''May 4'', emotions = Some [''calm'', ''curiosity''],
       mood_score = Some 8, highlight_moment = True\<rparr>] \<and>
   getEmotionStats
     [\<lparr>location_id = Str ''l1'', date = Str ''May 1'', emotions = Some [''calm'', ''joy'', ''fear'', ''wonder''],
       mood_score = Some 7, highlight_moment = False\<rparr>,
      \<lparr>location_id = Str ''l2'', date = Str ''May 2'', emotions = Some [''calm'', ''joy'', ''peace'', ''stress''],
       mood_score = Some 5, highlight_moment = False\<rparr>,
      \<lparr>location_id = Str ''l1'', date = Str ''May 3'', emotions = None,
       mood_score = None, highlight_moment = False\<rparr>,
      \<lparr>location_id = Str ''l3'', date = Str ''May 4'', emotions = Some [''calm'', ''curiosity''],
       mood_score = Some 8, highlight_moment = True\<rparr>] = [(''calm'', 3), (''joy'', 2), (''fear'', 1), (''wonder'', 1), (''peace'', 1), (''stress'', 1)] \<and>
   ''curiosity'' \<in> set (concat (map emotion_list
     [\<lparr>location_id = Str ''l1'', date = Str ''May 1'', emotions = Some [''calm'', ''joy'', ''fear'', ''wonder''],
       mood_score = Some 7, highlight_moment = False\<rparr>,
      \<lparr>location_id = Str ''l2'', date = Str ''May 2'', emotions = Some [''calm'', ''joy'', ''peace'', ''stress''],
       mood_score = Some 5, highlight_moment = False\<rparr>,
      \<lparr>location_id = Str ''l1'', date = Str ''May 3'', emotions = None,
       mood_score = None, highlight_moment = False\<rparr>,
      \<lparr>location_id = Str ''l3'', date = Str ''May 4'', emotions = Some [''calm'', ''curiosity''],
       mood_score = Some 8, highlight_moment = True\<rparr>])) \<and>
   length (remdups (concat (map emotion_list
     [\<lparr>location_id = Str ''l1'', date = Str ''May 1'', emotions = Some [''calm'', ''joy'', ''fear'', ''wonder''],
       mood_score = Some 7, highlight_moment = False\<rparr>,
      \<lparr>location_id = Str ''l2'', date = Str ''May 2'', emotions = Some [''calm'', ''joy'', ''peace'', ''stress''],
       mood_score = Some 5, highlight_moment = False\<rparr>,
      \<lparr>location_id = Str ''l1'', date = Str ''May 3'', emotions = None,
       mood_score = None, highlight_moment = False\<rparr>,
      \<lparr>location_id = Str ''l3'', date = Str ''May 4'', emotions = Some [''calm'', ''curiosity''],
       mood_score = Some 8, highlight_moment = True\<rparr>]))) = 7 \<and>
   getEmotionStats
     [\<lparr>location_id = Str ''l1'', date = Str ''May 1'', emotions = Some [''joy'', ''calm''],
       mood_score = Some 7, highlight_moment = False\<rparr>,
      \<lparr>location_id = Str ''l2'', date = Str ''May 2'', emotions = Some [''calm''],
       mood_score = None, highlight_moment = False\<rparr>,
      \<lparr>location_id = Str ''l1'', date = Undefined, emotions = None,
       mood_score = Some 0, highlight_moment = False\<rparr>,
      \<lparr>location_id = Str ''l9'', date = Str ''May 4'', emotions = Some [''calm'', ''wonder'', ''joy''],
       mood_score = Some 4, highlight_moment = True\<rparr>] = [(''calm'', 3), (''joy'', 2), (''wonder'', 1)]"
proof -
  have concrete: ?thesis
    by (simp add: getEmotionStats_def emotionCounts_def increment_def count_of_def emotion_list_def)
  show ?thesis
    using getEmotionStats_top_counts
    [of "[\<lparr>location_id = Str ''l1'', date = Str ''May 1'', emotions = Some [''calm'', ''joy'', ''fear'', ''wonder''],
       mood_score = Some 7, highlight_moment = False\<rparr>,
      \<lparr>location_id = Str ''l2'', date = Str ''May 2'', emotions = Some [''calm'', ''joy'', ''peace'', ''stress''],
       mood_score = Some 5, highlight_moment = False\<rparr>,
      \<lparr>location_id = Str ''l1'', date = Str ''May 3'', emotions = None,
       mood_score = None, highlight_moment = False\<rparr>,
      \<lparr>location_id = Str ''l3'', date = Str ''May 4'', emotions = Some [''calm'', ''curiosity''],
       mood_score = Some 8, highlight_moment = True\<rparr>]"]
    getEmotionStats_top_counts
    [of "[\<lparr>location_id = Str ''l1'', date = Str ''May 1'', emotions = Some [''joy'', ''calm''],
       mood_score = Some 7, highlight_moment = False\<rparr>,
      \<lparr>location_id = Str ''l2'', date = Str ''May 2'', emotions = Some [''calm''],
       mood_score = None, highlight_moment = False\<rparr>,
      \<lparr>location_id = Str ''l1'', date = Undefined, emotions = None,
       mood_score = Some 0, highlight_moment = False\<rparr>,
      \<lparr>location_id = Str ''l9'', date = Str ''May 4'', emotions = Some [''calm'', ''wonder'', ''joy''],
       mood_score = Some 4, highlight_moment = True\<rparr>]"]
    by - (rule concrete)
qed

text \<open>
  C10. The points of \<^verbatim>\<open>getMoodTrend\<close> are, in input order, those of exactly the
  entries whose \<^verbatim>\<open>mood_score\<close> is present and nonzero: an entry with an absent or
  zero score is left out, not averaged in as \<open>0\<close>. The projection is returned whenever
  the date of each of those entries can be formatted.
\<close>

theorem getMoodTrend_selection:
  "(getMoodTrend fmt locations journalEntries = Inr trend \<longrightarrow>
      map mood trend =
        map mood_score
          (filter (\<lambda>entry. mood_score entry \<noteq> None \<and> mood_score entry \<noteq> Some 0) journalEntries) \<and>
      map mp_location trend =
        map (\<lambda>entry. getLocationName locations (location_id entry))
          (filter (\<lambda>entry. mood_score entry \<noteq> None \<and> mood_score entry \<noteq> Some 0) journalEntries) \<and>
      map (\<lambda>point. Inr (mp_date point)) trend =
        map (\<lambda>entry. fmt (date entry))
          (filter (\<lambda>entry. mood_score entry \<noteq> None \<and> mood_score entry \<noteq> Some 0) journalEntries)) \<and>
   ((\<forall>entry \<in> set journalEntries.
        mood_score entry \<noteq> None \<and> mood_score entry \<noteq> Some 0 \<longrightarrow>
        fmt (date entry) = Inr (label entry)) \<longrightarrow>
      getMoodTrend fmt locations journalEntries =
        Inr (map (\<lambda>entry. \<lparr>mp_date = label entry, mood = mood_score entry,
                           mp_location = getLocationName locations (location_id entry)\<rparr>)
               (filter (\<lambda>entry. mood_score entry \<noteq> None \<and> mood_score entry \<noteq> Some 0)
                  journalEntries)))"
proof -
  let ?kept = "filter (\<lambda>entry. mood_score entry \<noteq> None \<and> mood_score entry \<noteq> Some 0) journalEntries"
  have kept: "filter (\<lambda>entry. truthy (mood_score entry)) journalEntries = ?kept"
    by (simp add: truthy_iff)
  have part1: "map mood trend = map mood_score ?kept \<and>
      map mp_location trend = map (\<lambda>entry. getLocationName locations (location_id entry)) ?kept \<and>
      map (\<lambda>point. Inr (mp_date point)) trend = map (\<lambda>entry. fmt (date entry)) ?kept"
    if "getMoodTrend fmt locations journalEntries = Inr trend"
  proof -
    from that have run: "map_throwing (mood_point_of fmt locations) ?kept = Inr trend"
      unfolding getMoodTrend_def kept .
    have "map mood trend = map mood_score ?kept"
      by (rule map_throwing_project[OF run]) (auto simp: mood_point_of_def split: sum.splits)
    moreover have "map mp_location trend =
        map (\<lambda>entry. getLocationName locations (location_id entry)) ?kept"
      by (rule map_throwing_project[OF run]) (auto simp: mood_point_of_def split: sum.splits)
    moreover have "map (\<lambda>point. Inr (mp_date point)) trend = map (\<lambda>entry. fmt (date entry)) ?kept"
      by (rule map_throwing_project[OF run]) (auto simp: mood_point_of_def split: sum.splits)
    ultimately show ?thesis by simp
  qed
  have part2: "getMoodTrend fmt locations journalEntries =
        Inr (map (\<lambda>entry. \<lparr>mp_date = label entry, mood = mood_score entry,
                           mp_location = getLocationName locations (location_id entry)\<rparr>) ?kept)"
    if "\<forall>entry \<in> set journalEntries.
        mood_score entry \<noteq> None \<and> mood_score entry \<noteq> Some 0 \<longrightarrow>
        fmt (date entry) = Inr (label entry)"
    unfolding getMoodTrend_def kept
    using that by (intro map_throwing_Inr) (simp add: mood_point_of_def)
  show ?thesis using part1 part2 by blast
qed

theorem getMoodTrend_selection_witness:
  "getMoodTrend (\<lambda>d. case d of Str s \<Rightarrow> Inr s | _ \<Rightarrow> Inl RangeError)
     [\<lparr>loc_id = Str ''l1'', name = ''Oslo''\<rparr>, \<lparr>loc_id = Str ''l2'', name = ''Lima''\<rparr>]
     [\<lparr>location_id = Str ''l1'', date = Str ''May 1'', emotions = Some [''joy'', ''calm''],
       mood_score = Some 7, highlight_moment = False\<rparr>,
      \<lparr>location_id = Str ''l2'', date = Str ''May 2'', emotions = Some [''calm''],
       mood_score = None, highlight_moment = False\<rparr>,
      \<lparr>location_id = Str ''l1'', date = Undefined, emotions = None,
       mood_score = Some 0, highlight_moment = False\<rparr>,
      \<lparr>location_id = Str ''l9'', date = Str ''May 4'', emotions = Some [''calm'', ''wonder'', ''joy''],
       mood_score = Some 4, highlight_moment = True\<rparr>] =
   Inr [\<lparr>mp_date = ''May 1'', mood = Some 7, mp_location = ''Oslo''\<rparr>,
        \<lparr>mp_date = ''May 4'', mood = Some 4, mp_location = ''Unknown Location''\<rparr>]"
  using getMoodTrend_selection
    [of "(\<lambda>d. case d of Str s \<Rightarrow> Inr s | _ \<Rightarrow> Inl RangeError)"
        "[\<lparr>loc_id = Str ''l1'', name = ''Oslo''\<rparr>, \<lparr>loc_id = Str ''l2'', name = ''Lima''\<rparr>]"
        "[\<lparr>location_id = Str ''l1'', date = Str ''May 1'', emotions = Some [''joy'', ''calm''],
       mood_score = Some 7, highlight_moment = False\<rparr>,
      \<lparr>location_id = Str ''l2'', date = Str ''May 2'', emotions = Some [''calm''],
       mood_score = None, highlight_moment = False\<rparr>,
      \<lparr>location_id = Str ''l1'', date = Undefined, emotions = None,
       mood_score = Some 0, highlight_moment = False\<rparr>,
      \<lparr>location_id = Str ''l9'', date = Str ''May 4'', emotions = Some [''calm'', ''wonder'', ''joy''],
       mood_score = Some 4, highlight_moment = True\<rparr>]"
        "[\<lparr>mp_date = ''May 1'', mood = Some 7, mp_location = ''Oslo''\<rparr>,
          \<lparr>mp_date = ''May 4'', mood = Some 4, mp_location = ''Unknown Location''\<rparr>]"
        "(\<lambda>entry. case date entry of Str s \<Rightarrow> s | _ \<Rightarrow> [])"]
  by (simp add: getMoodTrend_def mood_point_of_def getLocationName_def)

end
